theory Spec2Isabelle
  imports Main "HOL-Library.AList" "HOL-Library.Sublist" "HOL-Library.Char_ord"
    "HOL-Library.List_Lexorder"
begin

section \<open>Errors\<close>

text \<open>
  The exception classes of \<^verbatim>\<open>app/core/exceptions.py\<close> that the modelled code raises,
  one constructor per class; \<open>NoSuchTable\<close> keeps the identifier list it is built from.
  \<open>IntegrityError\<close> (SQLAlchemy), \<open>PydanticValidationError\<close> and Python's \<open>ValueError\<close>
  are not Iceberg exceptions: they are caught by \<^verbatim>\<open>except Exception\<close>, never by
  \<^verbatim>\<open>except BaseIcebergException\<close>. Messages are not modelled.
\<close>

datatype error =
    BadRequest
  | Validation
  | NotFound
  | NoSuchNamespace "string list"
  | NoSuchTable "string list"
  | TableAlreadyExists
  | CommitFailed
  | InternalServerError
  | IntegrityError
  | PydanticValidationError
  | ValueError

fun isIcebergException :: "error \<Rightarrow> bool" where
  "isIcebergException IntegrityError = False"
| "isIcebergException PydanticValidationError = False"
| "isIcebergException ValueError = False"
| "isIcebergException _ = True"

section \<open>Data model (\<^verbatim>\<open>app/models/iceberg_models.py\<close>)\<close>

datatype IcebergType =
    Primitive string
  | StructType "StructField list"
  | ListType int IcebergType bool
  | MapType int IcebergType int IcebergType bool
and StructField =
    StructField (sf_id: int) (sf_name: string) (sf_type: IcebergType) (sf_required: bool)
      (sf_doc: "string option")

record Schema =
  schemaId :: "int option"
  schema_fields :: "StructField list"
  identifierFieldIds :: "int list option"

record PartitionField =
  pf_sourceId :: int
  fieldId :: int
  pf_name :: string
  pf_transform :: string

record PartitionSpec =
  specId :: int
  spec_fields :: "PartitionField list"

record SortField =
  so_sourceId :: int
  so_transform :: string
  direction :: string
  nullOrder :: string

record SortOrder =
  orderId :: int
  order_fields :: "SortField list"

record Snapshot =
  snapshotId :: int
  parentId :: "int option"
  timestampMs :: int
  summary :: "(string \<times> string) list option"
  manifestList :: string
  snap_schemaId :: "int option"

datatype RefType = Tag | Branch

record SnapshotReference =
  ref_snapshotId :: int
  ref_type :: RefType
  minSnapshotsToKeep :: "int option"
  maxSnapshotAgeMs :: "int option"
  maxRefAgeMs :: "int option"

text \<open>
  \<open>TableMetadata\<close>. The type parameter is the representation of a schema in the
  \<open>schemas\<close> list: a \<open>Schema\<close> value where only the content matters, an address into a
  store of schema objects where the identity of the object matters. Python dictionaries
  are association lists (insertion order kept); the two logs hold pairs
  (\<open>timestamp-ms\<close>, \<open>snapshot-id\<close>) and (\<open>timestamp-ms\<close>, \<open>metadata-file\<close>).
\<close>

record 's TableMetadata =
  formatVersion :: int
  tableUuid :: string
  location :: string
  lastUpdatedMs :: int
  lastColumnId :: int
  schemas :: "'s list"
  currentSchemaId :: int
  partitionSpecs :: "PartitionSpec list"
  defaultSpecId :: int
  lastPartitionId :: int
  properties :: "(string \<times> string) list option"
  currentSnapshotId :: "int option"
  snapshots :: "Snapshot list option"
  snapshotLog :: "(int \<times> int) list option"
  metadataLog :: "(int \<times> string) list option"
  sortOrders :: "SortOrder list"
  defaultSortOrderId :: int
  refs :: "(string \<times> SnapshotReference) list option"

datatype TableRequirement =
    AssertCreate
  | AssertTableUUID string
  | AssertDefaultSpecID int
  | AssertDefaultSortOrderID int
  | AssertCurrentSchemaID int
  | AssertLastAssignedFieldID int
  | AssertRefSnapshotID string "int option"

datatype 's TableUpdate =
    AssignUUIDUpdate string
  | UpgradeFormatVersionUpdate int
  | AddSchemaUpdate 's "int option"
  | SetCurrentSchemaUpdate int
  | AddPartitionSpecUpdate PartitionSpec
  | SetDefaultSpecUpdate int
  | AddSortOrderUpdate SortOrder
  | SetDefaultSortOrderUpdate int
  | AddSnapshotUpdate Snapshot
  | RemoveSnapshotsUpdate "int list"
  | SetSnapshotRefUpdate string RefType int "int option" "int option" "int option"
  | RemoveSnapshotRefUpdate string
  | SetPropertiesUpdate "(string \<times> string) list"
  | RemovePropertiesUpdate "string list"
  | SetLocationUpdate string

section \<open>Metadata manager (\<^verbatim>\<open>app/services/metadata_manager.py\<close>)\<close>

subsection \<open>Maximum field id\<close>

text \<open>
  The loop shared by \<^verbatim>\<open>getMaxIdRecursive\<close> and \<^verbatim>\<open>getMaxFieldIdFromSchema\<close>: the running
  maximum starts at the first argument, takes each field's id, and descends into a field
  whose type has a non-empty \<^verbatim>\<open>fields\<close> attribute, which only a \<open>StructType\<close> has.
\<close>

fun maxIdLoop :: "int \<Rightarrow> StructField list \<Rightarrow> int" where
  "maxIdLoop cur [] = cur"
| "maxIdLoop cur (StructField i n t r d # fs) =
     maxIdLoop
       (case t of
          StructType sub \<Rightarrow>
            (if sub = [] then max cur i else max (max cur i) (maxIdLoop 0 sub))
        | _ \<Rightarrow> max cur i)
       fs"

definition getMaxIdRecursive :: "StructField list \<Rightarrow> int" where
  "getMaxIdRecursive fs = maxIdLoop 0 fs"

definition getMaxFieldIdFromSchema :: "Schema \<Rightarrow> int" where
  "getMaxFieldIdFromSchema s = (if schema_fields s = [] then 0 else maxIdLoop 0 (schema_fields s))"

text \<open>Python's \<^verbatim>\<open>max\<close> of a generator, called on non-empty sequences only.\<close>

fun max_list :: "int list \<Rightarrow> int" where
  "max_list [] = 0"
| "max_list [x] = x"
| "max_list (x # y # ys) = max x (max_list (y # ys))"

subsection \<open>\<^verbatim>\<open>applyUpdatesToMetadata\<close>\<close>

text \<open>
  One iteration of the loop over \<^verbatim>\<open>updates\<close>: the \<^verbatim>\<open>isinstance\<close> chain in the order of
  the source. \<open>RemoveSnapshotsUpdate\<close> and \<open>RemoveSnapshotRefUpdate\<close> are members of the
  \<^verbatim>\<open>TableUpdate\<close> union that no branch of the chain tests for, so they reach the final
  \<^verbatim>\<open>else\<close>. \<open>ovr\<close> is \<^verbatim>\<open>newTableLocationForSetLocation\<close>.

  The models of \<^verbatim>\<open>iceberg_models.py\<close> set no \<^verbatim>\<open>populate_by_name\<close>, so a constructor knows a
  field that has an alias by its alias only: a keyword argument with the field's name is
  ignored. The branch for \<open>AddSnapshotUpdate\<close> appends the snapshot and then builds
  \<^verbatim>\<open>SetSnapshotRefUpdate(refName=..., snapshotId=..., type="branch")\<close>, whose required
  fields \<^verbatim>\<open>ref-name\<close> and \<^verbatim>\<open>snapshot-id\<close> are then missing: the constructor raises pydantic's
  validation error and the copy with the appended snapshot is lost.
\<close>

fun applyUpdate ::
  "string option \<Rightarrow> Schema TableMetadata \<Rightarrow> Schema TableUpdate \<Rightarrow> error + Schema TableMetadata"
where
  "applyUpdate ovr m (AssignUUIDUpdate u) = Inr (m\<lparr>tableUuid := u\<rparr>)"
| "applyUpdate ovr m (UpgradeFormatVersionUpdate v) =
     (if v > formatVersion m then Inr (m\<lparr>formatVersion := v\<rparr>) else Inl CommitFailed)"
| "applyUpdate ovr m (AddSchemaUpdate s lastAssigned) =
     (if list_ex (\<lambda>x. schemaId x = schemaId s) (schemas m) then Inl CommitFailed
      else
        (let c = max (lastColumnId m) (getMaxFieldIdFromSchema s) in
         Inr (m\<lparr>schemas := schemas m @ [s],
                lastColumnId := (case lastAssigned of None \<Rightarrow> c | Some a \<Rightarrow> max c a)\<rparr>)))"
| "applyUpdate ovr m (SetCurrentSchemaUpdate i) =
     (if list_ex (\<lambda>x. schemaId x = Some i) (schemas m)
      then Inr (m\<lparr>currentSchemaId := i\<rparr>) else Inl CommitFailed)"
| "applyUpdate ovr m (AddPartitionSpecUpdate ps) =
     (if list_ex (\<lambda>x. specId x = specId ps) (partitionSpecs m) then Inl CommitFailed
      else
        Inr (m\<lparr>partitionSpecs := partitionSpecs m @ [ps],
               lastPartitionId :=
                 max (lastPartitionId m)
                   (if spec_fields ps = [] then 0 else max_list (map fieldId (spec_fields ps)))\<rparr>))"
| "applyUpdate ovr m (SetDefaultSpecUpdate i) =
     (if list_ex (\<lambda>x. specId x = i) (partitionSpecs m)
      then Inr (m\<lparr>defaultSpecId := i\<rparr>) else Inl CommitFailed)"
| "applyUpdate ovr m (AddSortOrderUpdate so) =
     (if list_ex (\<lambda>x. orderId x = orderId so) (sortOrders m) then Inl CommitFailed
      else Inr (m\<lparr>sortOrders := sortOrders m @ [so]\<rparr>))"
| "applyUpdate ovr m (SetDefaultSortOrderUpdate i) =
     (if list_ex (\<lambda>x. orderId x = i) (sortOrders m)
      then Inr (m\<lparr>defaultSortOrderId := i\<rparr>) else Inl CommitFailed)"
| "applyUpdate ovr m (AddSnapshotUpdate sn) = Inl PydanticValidationError"
| "applyUpdate ovr m (SetSnapshotRefUpdate nm ty sid maxRef maxSnap minKeep) =
     Inr (m\<lparr>refs :=
              Some (AList.update nm
                      \<lparr>ref_snapshotId = sid, ref_type = ty,
                       minSnapshotsToKeep = minKeep, maxSnapshotAgeMs = maxSnap,
                       maxRefAgeMs = maxRef\<rparr>
                      (case refs m of None \<Rightarrow> [] | Some xs \<Rightarrow> xs))\<rparr>)"
| "applyUpdate ovr m (SetPropertiesUpdate ups) =
     Inr (m\<lparr>properties :=
              Some (fold (\<lambda>(k, v). AList.update k v) ups
                      (case properties m of None \<Rightarrow> [] | Some xs \<Rightarrow> xs))\<rparr>)"
| "applyUpdate ovr m (RemovePropertiesUpdate ks) =
     (case properties m of
        None \<Rightarrow> Inr m
      | Some ps \<Rightarrow>
          (if ps = [] then Inr m else Inr (m\<lparr>properties := Some (fold AList.delete ks ps)\<rparr>)))"
| "applyUpdate ovr m (SetLocationUpdate loc) =
     (case ovr of
        None \<Rightarrow> Inr (m\<lparr>location := loc\<rparr>)
      | Some l \<Rightarrow> (if l = [] then Inr (m\<lparr>location := loc\<rparr>) else Inr (m\<lparr>location := l\<rparr>)))"
| "applyUpdate ovr m (RemoveSnapshotsUpdate ids) = Inl BadRequest"
| "applyUpdate ovr m (RemoveSnapshotRefUpdate nm) = Inl BadRequest"

fun applyLoop ::
  "string option \<Rightarrow> Schema TableMetadata \<Rightarrow> Schema TableUpdate list \<Rightarrow> error + Schema TableMetadata"
where
  "applyLoop ovr m [] = Inr m"
| "applyLoop ovr m (u # us) =
     (case applyUpdate ovr m u of Inl e \<Rightarrow> Inl e | Inr m' \<Rightarrow> applyLoop ovr m' us)"

text \<open>
  \<^verbatim>\<open>applyUpdatesToMetadata(currentMetadata, updates, newTableLocationForSetLocation)\<close>.
  The deep copy is the value itself; \<open>now\<close> is the reading of the clock,
  \<^verbatim>\<open>int(time.time() * 1000)\<close>.
\<close>

definition applyUpdatesToMetadata ::
  "int \<Rightarrow> Schema TableMetadata \<Rightarrow> Schema TableUpdate list \<Rightarrow> string option
     \<Rightarrow> error + Schema TableMetadata"
where
  "applyUpdatesToMetadata now currentMetadata updates ovr =
     applyLoop ovr (currentMetadata\<lparr>lastUpdatedMs := now\<rparr>) updates"

section \<open>Python strings and \<^verbatim>\<open>os.path\<close>\<close>

text \<open>
  The standard-library functions the code calls, after CPython's \<^verbatim>\<open>posixpath\<close> and
  \<^verbatim>\<open>str\<close>. A \<open>char\<close> is a code point below 256 (Latin-1); strings with other code points
  are outside the model.
\<close>

definition startswith :: "string \<Rightarrow> string \<Rightarrow> bool" where
  "startswith s p = prefix p s"

text \<open>\<^verbatim>\<open>sub in s\<close>.\<close>

fun contains :: "string \<Rightarrow> string \<Rightarrow> bool" where
  "contains sub [] = (sub = [])"
| "contains sub (c # cs) = (if prefix sub (c # cs) then True else contains sub cs)"

text \<open>\<^verbatim>\<open>s.split(c)\<close>: the first argument of \<open>splitAcc\<close> is the piece being read, reversed.\<close>

fun splitAcc :: "char \<Rightarrow> string \<Rightarrow> string \<Rightarrow> string list" where
  "splitAcc c cur [] = [rev cur]"
| "splitAcc c cur (x # xs) =
     (if x = c then rev cur # splitAcc c [] xs else splitAcc c (x # cur) xs)"

definition split :: "char \<Rightarrow> string \<Rightarrow> string list" where
  "split c s = splitAcc c [] s"

text \<open>\<^verbatim>\<open>sep.join(xs)\<close>.\<close>

fun joinWith :: "string \<Rightarrow> string list \<Rightarrow> string" where
  "joinWith sep [] = []"
| "joinWith sep [x] = x"
| "joinWith sep (x # y # ys) = x @ sep @ joinWith sep (y # ys)"

definition isabs :: "string \<Rightarrow> bool" where
  "isabs p = startswith p ''/''"

text \<open>\<^verbatim>\<open>os.path.join(a, b)\<close> and its variadic form \<^verbatim>\<open>os.path.join(a, *bs)\<close>.\<close>

definition join :: "string \<Rightarrow> string \<Rightarrow> string" where
  "join a b =
     (if startswith b ''/'' then b
      else if a = [] then b
      else if last a = CHR ''/'' then a @ b
      else a @ ''/'' @ b)"

definition joinAll :: "string \<Rightarrow> string list \<Rightarrow> string" where
  "joinAll a bs = fold (\<lambda>b acc. join acc b) bs a"

text \<open>
  The loop of \<^verbatim>\<open>normpath\<close> over the components: the first argument says whether the
  path starts with a slash, the second is \<^verbatim>\<open>new_comps\<close>.
\<close>

fun normComps :: "bool \<Rightarrow> string list \<Rightarrow> string list \<Rightarrow> string list" where
  "normComps ini acc [] = acc"
| "normComps ini acc (c # cs) =
     (if c = [] then normComps ini acc cs
      else if c = ''.'' then normComps ini acc cs
      else if c = ''..'' then
        (if acc = [] then (if ini then normComps ini acc cs else normComps ini (acc @ [c]) cs)
         else if last acc = ''..'' then normComps ini (acc @ [c]) cs
         else normComps ini (butlast acc) cs)
      else normComps ini (acc @ [c]) cs)"

definition normpath :: "string \<Rightarrow> string" where
  "normpath path =
     (if path = [] then ''.''
      else
        (let ini = (if startswith path ''/''
                    then (if startswith path ''//'' \<and> \<not> startswith path ''///''
                          then 2 else 1)
                    else (0::nat));
             comps = normComps (0 < ini) [] (split CHR ''/'' path);
             p = replicate ini CHR ''/'' @ joinWith ''/'' comps
         in if p = [] then ''.'' else p))"

text \<open>\<^verbatim>\<open>os.path.abspath(p)\<close>; \<open>cwd\<close> is \<^verbatim>\<open>os.getcwd()\<close>.\<close>

definition abspath :: "string \<Rightarrow> string \<Rightarrow> string" where
  "abspath cwd p = normpath (if isabs p then p else join cwd p)"

definition basename :: "string \<Rightarrow> string" where
  "basename p = last (split CHR ''/'' p)"

text \<open>\<^verbatim>\<open>str.isdigit\<close>, \<^verbatim>\<open>int(s)\<close>, \<^verbatim>\<open>str(n)\<close> and the format \<^verbatim>\<open>05d\<close>.\<close>

text \<open>
  \<open>isDigit\<close>: the decimal characters, which \<^verbatim>\<open>int\<close> reads (below 256 these are \<^verbatim>\<open>0\<close> to
  \<^verbatim>\<open>9\<close>). \<open>isDigitChar\<close>: the characters with the Unicode digit property, which
  \<^verbatim>\<open>str.isdigit\<close> tests: the decimal characters and the superscripts two, three and one
  (code points 178, 179 and 185). \<open>isSpace\<close>: the white space \<^verbatim>\<open>int\<close> strips.
\<close>

definition isDigit :: "char \<Rightarrow> bool" where
  "isDigit c = (48 \<le> (of_char c :: nat) \<and> (of_char c :: nat) \<le> 57)"


definition digitVal :: "char \<Rightarrow> nat" where
  "digitVal c = of_char c - 48"

definition isSpace :: "char \<Rightarrow> bool" where
  "isSpace c =
     ((9 \<le> (of_char c :: nat) \<and> (of_char c :: nat) \<le> 13)
      \<or> (28 \<le> (of_char c :: nat) \<and> (of_char c :: nat) \<le> 32)
      \<or> (of_char c :: nat) = 133 \<or> (of_char c :: nat) = 160)"


definition strip :: "string \<Rightarrow> string" where
  "strip s = rev (dropWhile isSpace (rev (dropWhile isSpace s)))"

text \<open>
  The digits of a decimal literal after the first: single underscores may separate
  digits.
\<close>

fun parseDigits :: "nat \<Rightarrow> string \<Rightarrow> nat option" where
  "parseDigits acc [] = Some acc"
| "parseDigits acc [c] = (if isDigit c then Some (10 * acc + digitVal c) else None)"
| "parseDigits acc (c # d # ds) =
     (if isDigit c then parseDigits (10 * acc + digitVal c) (d # ds)
      else if c = CHR ''_'' then
        (if isDigit d then parseDigits (10 * acc + digitVal d) ds else None)
      else None)"

definition parseNat :: "string \<Rightarrow> nat option" where
  "parseNat s =
     (case s of [] \<Rightarrow> None
      | c # cs \<Rightarrow> (if isDigit c then parseDigits (digitVal c) cs else None))"

text \<open>\<^verbatim>\<open>int(s)\<close>: \<open>None\<close> is \<^verbatim>\<open>ValueError\<close>.\<close>

definition pyInt :: "string \<Rightarrow> int option" where
  "pyInt s =
     (case strip s of
        [] \<Rightarrow> None
      | c # cs \<Rightarrow>
          (if c = CHR ''-'' then map_option (\<lambda>n. - int n) (parseNat cs)
           else if c = CHR ''+'' then map_option int (parseNat cs)
           else map_option int (parseNat (c # cs))))"

fun natStr :: "nat \<Rightarrow> string" where
  "natStr n =
     (if n < 10 then [char_of (48 + n)]
      else natStr (n div 10) @ [char_of (48 + n mod 10)])"

declare natStr.simps [simp del]


definition zpad :: "nat \<Rightarrow> string \<Rightarrow> string" where
  "zpad w s = replicate (w - length s) CHR ''0'' @ s"

definition fmt05d :: "int \<Rightarrow> string" where
  "fmt05d v = (if v < 0 then ''-'' @ zpad 4 (natStr (nat (- v))) else zpad 5 (natStr (nat v)))"

subsection \<open>\<^verbatim>\<open>generateNewMetadataLocation\<close>\<close>

text \<open>
  \<open>uuid\<close> is the string of the fresh \<^verbatim>\<open>uuid.uuid4()\<close>. An absent or empty old location, and
  a file name whose prefix before the first \<^verbatim>\<open>-\<close> is not an integer literal, give
  version 0.
\<close>

definition generateNewMetadataLocation :: "string \<Rightarrow> string \<Rightarrow> string option \<Rightarrow> string" where
  "generateNewMetadataLocation uuid tableLocation oldMetadataLocation =
     (let version =
            (case oldMetadataLocation of
               None \<Rightarrow> 0
             | Some old \<Rightarrow>
                 (if old = [] then 0
                  else (case pyInt (hd (split CHR ''-'' (basename old))) of
                          None \<Rightarrow> 0
                        | Some n \<Rightarrow> n + 1)));
          metadataDir = join tableLocation ''metadata'';
          newFilename = fmt05d version @ ''-'' @ uuid @ ''.metadata.json''
      in join metadataDir newFilename)"

subsection \<open>\<^verbatim>\<open>buildInitialTableMetadata\<close>\<close>

text \<open>
  Schema objects live in a store, a function from addresses to \<open>Schema\<close> values; the
  \<^verbatim>\<open>schema\<close> argument is the address \<open>r\<close> of the caller's object. The function returns the
  store after the call, the metadata (whose \<open>schemas\<close> list holds addresses) and the
  location of the metadata file. \<open>tuuid\<close> and \<open>fuuid\<close> are the two fresh UUIDs (table and
  file name), \<open>now\<close> the clock in milliseconds.

  The metadata of the result is the object that the keyword arguments of the call
  \<^verbatim>\<open>TableMetadata(formatVersion=1, ...)\<close> describe, field by field; the assignment to
  \<^verbatim>\<open>schema.schemaId\<close> comes before that call. \<open>buildInitialTableMetadata_call\<close> below adds
  pydantic's validation of the call.
\<close>

type_synonym addr = nat
type_synonym store = "addr \<Rightarrow> Schema"

definition buildInitialTableMetadata_st ::
  "string \<Rightarrow> string \<Rightarrow> int \<Rightarrow> store \<Rightarrow> string \<Rightarrow> addr \<Rightarrow> PartitionSpec option
     \<Rightarrow> SortOrder option \<Rightarrow> (string \<times> string) list option \<Rightarrow> string
     \<Rightarrow> store \<times> addr TableMetadata \<times> string"
where
  "buildInitialTableMetadata_st tuuid fuuid now h tableName r partitionSpec sortOrder props
       tableLocation =
     (let maxId = (if schema_fields (h r) = [] then 0
                   else getMaxIdRecursive (schema_fields (h r)));
          h' = (if schemaId (h r) = None then h(r := (h r)\<lparr>schemaId := Some 0\<rparr>) else h);
          actualPartitionSpecFields =
            (case partitionSpec of None \<Rightarrow> [] | Some ps \<Rightarrow> spec_fields ps);
          lastPartId = (if actualPartitionSpecFields = [] then 0
                        else max_list (map fieldId actualPartitionSpecFields));
          metadataJsonFileLocation = generateNewMetadataLocation fuuid tableLocation None
      in (h',
          \<lparr>formatVersion = 1,
           tableUuid = tuuid,
           location = tableLocation,
           lastUpdatedMs = now,
           lastColumnId = maxId,
           schemas = [r],
           currentSchemaId = (case schemaId (h' r) of None \<Rightarrow> 0 | Some i \<Rightarrow> i),
           partitionSpecs = (case partitionSpec of None \<Rightarrow> [] | Some ps \<Rightarrow> [ps]),
           defaultSpecId = (case partitionSpec of None \<Rightarrow> 0 | Some ps \<Rightarrow> specId ps),
           lastPartitionId = lastPartId,
           properties = (case props of None \<Rightarrow> Some [] | Some p \<Rightarrow> Some p),
           currentSnapshotId = None,
           snapshots = Some [],
           snapshotLog = Some [],
           metadataLog = Some [(now, metadataJsonFileLocation)],
           sortOrders = (case sortOrder of None \<Rightarrow> [] | Some so \<Rightarrow> [so]),
           defaultSortOrderId = (case sortOrder of None \<Rightarrow> 0 | Some so \<Rightarrow> orderId so),
           refs = Some []\<rparr>,
          metadataJsonFileLocation))"

text \<open>
  The call as pydantic runs it. The keyword arguments name the fields by field name, and
  \<^verbatim>\<open>last-column-id\<close> is a required field known by its alias only: the constructor raises
  its validation error, after the write to the schema object, and the function returns
  nothing.
\<close>

definition buildInitialTableMetadata_call ::
  "string \<Rightarrow> string \<Rightarrow> int \<Rightarrow> store \<Rightarrow> string \<Rightarrow> addr \<Rightarrow> PartitionSpec option
     \<Rightarrow> SortOrder option \<Rightarrow> (string \<times> string) list option \<Rightarrow> string
     \<Rightarrow> store \<times> (error + addr TableMetadata \<times> string)"
where
  "buildInitialTableMetadata_call tuuid fuuid now h tableName r partitionSpec sortOrder props
       tableLocation =
     (case buildInitialTableMetadata_st tuuid fuuid now h tableName r partitionSpec sortOrder
             props tableLocation of
        (h', m, loc) \<Rightarrow> (h', Inl PydanticValidationError))"



section \<open>Storage accessor (\<^verbatim>\<open>app/services/storage_accessor.py\<close>)\<close>

text \<open>
  The process the accessor runs in: its working directory (an absolute path) and the
  setting \<^verbatim>\<open>ICEBERG_WAREHOUSE_PATH\<close>, which is the accessor's \<^verbatim>\<open>baseWarehousePath\<close>.
\<close>

record config =
  cwd :: string
  icebergWarehousePath :: string

text \<open>
  \<^verbatim>\<open>_resolvePath\<close>. The traversal test is Python's \<^verbatim>\<open>str.startswith\<close> on the two
  normalised paths.
\<close>

definition resolvePath :: "config \<Rightarrow> string \<Rightarrow> error + string" where
  "resolvePath cfg p =
     (if contains ''://'' p \<or> isabs p then
        (if startswith p ''file://'' then Inr (drop (length ''file://'') p) else Inr p)
      else
        (let fullPath = abspath (cwd cfg) (join (icebergWarehousePath cfg) p) in
         if startswith fullPath (abspath (cwd cfg) (icebergWarehousePath cfg))
         then Inr fullPath else Inl Validation))"

text \<open>
  The file system: a partial map from normalised absolute path names to file contents.
  A name given to \<^verbatim>\<open>open\<close>, \<^verbatim>\<open>exists\<close> or \<^verbatim>\<open>remove\<close> is read relative to the working
  directory (\<open>fileKey\<close>); there are no symbolic links, directories are created as needed,
  and the only I/O failure is a missing file. A file holds text that is not JSON, a JSON
  document that is not a table metadata document, or the JSON of a metadata value.
\<close>

datatype fileContent = NotJson | JsonOther | JsonMetadata "Schema TableMetadata"

type_synonym filesystem = "string \<Rightarrow> fileContent option"

definition fileKey :: "config \<Rightarrow> string \<Rightarrow> string" where
  "fileKey cfg p = abspath (cwd cfg) p"

definition readJsonFile :: "config \<Rightarrow> filesystem \<Rightarrow> string \<Rightarrow> error + fileContent" where
  "readJsonFile cfg fs path =
     (case resolvePath cfg path of
        Inl e \<Rightarrow> Inl e
      | Inr resolvedPath \<Rightarrow>
          (case fs (fileKey cfg resolvedPath) of
             None \<Rightarrow> Inl NotFound
           | Some NotJson \<Rightarrow> Inl Validation
           | Some f \<Rightarrow> Inr f))"

definition writeJsonFile :: "config \<Rightarrow> filesystem \<Rightarrow> string \<Rightarrow> fileContent \<Rightarrow> error + filesystem" where
  "writeJsonFile cfg fs path data =
     (case resolvePath cfg path of
        Inl e \<Rightarrow> Inl e
      | Inr resolvedPath \<Rightarrow> Inr (fs(fileKey cfg resolvedPath := Some data)))"

definition fileExists :: "config \<Rightarrow> filesystem \<Rightarrow> string \<Rightarrow> error + bool" where
  "fileExists cfg fs path =
     (case resolvePath cfg path of
        Inl e \<Rightarrow> Inl e
      | Inr resolvedPath \<Rightarrow> Inr (fs (fileKey cfg resolvedPath) \<noteq> None))"

text \<open>
  \<^verbatim>\<open>deleteFile\<close> resolves its argument, then asks \<^verbatim>\<open>self.fileExists(resolvedPath)\<close>,
  which resolves the resolved path once more; an exception inside the \<^verbatim>\<open>try\<close> becomes
  \<open>InternalServerError\<close>.
\<close>

definition deleteFile :: "config \<Rightarrow> filesystem \<Rightarrow> string \<Rightarrow> error + filesystem" where
  "deleteFile cfg fs path =
     (case resolvePath cfg path of
        Inl e \<Rightarrow> Inl e
      | Inr resolvedPath \<Rightarrow>
          (case fileExists cfg fs resolvedPath of
             Inl e \<Rightarrow> Inl InternalServerError
           | Inr False \<Rightarrow> Inr fs
           | Inr True \<Rightarrow>
               (if fs (fileKey cfg resolvedPath) = None then Inl InternalServerError
                else Inr (fs(fileKey cfg resolvedPath := None)))))"

text \<open>
  What the claim on path traversal calls a descendant of the warehouse root: the root
  itself or a path below it.
\<close>

definition isDescendant :: "string \<Rightarrow> string \<Rightarrow> bool" where
  "isDescendant root p =
     (if p = root then True
      else if root = [] then False
      else if last root = CHR ''/'' then startswith p root
      else startswith p (root @ ''/''))"

section \<open>Catalog store (\<^verbatim>\<open>app/db/models_db.py\<close>, \<^verbatim>\<open>app/crud\<close>)\<close>

record NamespaceModel =
  ns_id :: int
  levels :: "string list"
  ns_properties :: "(string \<times> string) list option"

record TableModel =
  tbl_id :: int
  namespaceId :: int
  tbl_name :: string
  metadataLocation :: string
  tbl_properties :: "(string \<times> string) list option"

record catalog =
  namespaces :: "NamespaceModel list"
  tables :: "TableModel list"

record TableIdentifier =
  namespace :: "string list"
  ident_name :: string

text \<open>A query returns the rows as they are stored at the time of the query.\<close>

definition getNamespaceByLevels :: "catalog \<Rightarrow> string list \<Rightarrow> NamespaceModel option" where
  "getNamespaceByLevels db lv = find (\<lambda>n. levels n = lv) (namespaces db)"

definition getTableByIdentifier :: "catalog \<Rightarrow> TableIdentifier \<Rightarrow> TableModel option" where
  "getTableByIdentifier db identifier =
     (case getNamespaceByLevels db (namespace identifier) of
        None \<Rightarrow> None
      | Some namespaceModel \<Rightarrow>
          find (\<lambda>t. namespaceId t = ns_id namespaceModel \<and> tbl_name t = ident_name identifier)
            (tables db))"

text \<open>
  \<^verbatim>\<open>listNamespaces\<close>: the statement is \<^verbatim>\<open>select(NamespaceModel)\<close> ordered by \<^verbatim>\<open>levels\<close>; the
  branch \<^verbatim>\<open>if parent: pass\<close> adds nothing to it. The order of the database is taken to be
  the lexicographic order of the label lists.
\<close>

definition listNamespaces :: "catalog \<Rightarrow> string list option \<Rightarrow> NamespaceModel list" where
  "listNamespaces db parent = sort_key levels (namespaces db)"

text \<open>
  The unique constraint on \<^verbatim>\<open>metadataLocation\<close>: a commit that would leave two rows with
  the same location raises \<open>IntegrityError\<close>.
\<close>

definition locationTaken :: "catalog \<Rightarrow> int \<Rightarrow> string \<Rightarrow> bool" where
  "locationTaken db tid loc =
     list_ex (\<lambda>t. tbl_id t \<noteq> tid \<and> metadataLocation t = loc) (tables db)"

definition setLocation :: "catalog \<Rightarrow> int \<Rightarrow> string \<Rightarrow> catalog" where
  "setLocation db tid loc =
     db\<lparr>tables := map (\<lambda>t. if tbl_id t = tid then t\<lparr>metadataLocation := loc\<rparr> else t) (tables db)\<rparr>"

text \<open>
  The session of a request (\<^verbatim>\<open>AsyncSession\<close>, one per request) keeps the table objects it
  has loaded, by primary key. A query for a table selects the row in the catalog as it is
  now; when the session already holds the object with that primary key, the query
  returns that object with the attribute values it was loaded with, not the row's
  present values.
\<close>

type_synonym session = "int \<Rightarrow> TableModel option"

definition newSession :: session where
  "newSession = (\<lambda>_. None)"

definition loaded :: "TableModel \<Rightarrow> session" where
  "loaded t = newSession(tbl_id t := Some t)"

definition queryTable :: "session \<Rightarrow> catalog \<Rightarrow> TableIdentifier \<Rightarrow> TableModel option" where
  "queryTable ses db identifier =
     (case getTableByIdentifier db identifier of
        None \<Rightarrow> None
      | Some r \<Rightarrow> (case ses (tbl_id r) of None \<Rightarrow> Some r | Some obj \<Rightarrow> Some obj))"

text \<open>
  \<^verbatim>\<open>updateTableMetadataLocation\<close> in a session: the catalog after the commit and the
  refreshed row, or the exception (the catalog is then as before). The commit updates
  the row that has the object's primary key.
\<close>

definition updateTableMetadataLocationIn ::
  "session \<Rightarrow> catalog \<Rightarrow> TableIdentifier \<Rightarrow> string \<Rightarrow> string option
     \<Rightarrow> error + catalog \<times> TableModel"
where
  "updateTableMetadataLocationIn ses db identifier newMetadataLocation
       oldMetadataLocationForCheck =
     (case queryTable ses db identifier of
        None \<Rightarrow> Inl (NoSuchTable (namespace identifier @ [ident_name identifier]))
      | Some dbTable \<Rightarrow>
          (if (case oldMetadataLocationForCheck of
                 None \<Rightarrow> False
               | Some old \<Rightarrow> old \<noteq> [] \<and> metadataLocation dbTable \<noteq> old)
           then Inl CommitFailed
           else if locationTaken db (tbl_id dbTable) newMetadataLocation then Inl IntegrityError
           else Inr (setLocation db (tbl_id dbTable) newMetadataLocation,
                     dbTable\<lparr>metadataLocation := newMetadataLocation\<rparr>)))"

text \<open>The function called in a session that has loaded nothing.\<close>

definition updateTableMetadataLocation ::
  "catalog \<Rightarrow> TableIdentifier \<Rightarrow> string \<Rightarrow> string option \<Rightarrow> error + catalog \<times> TableModel"
where
  "updateTableMetadataLocation db identifier newMetadataLocation oldMetadataLocationForCheck =
     updateTableMetadataLocationIn newSession db identifier newMetadataLocation
       oldMetadataLocationForCheck"

section \<open>Table endpoints (\<^verbatim>\<open>app/api/v1/table_router.py\<close>)\<close>

definition parseNamespace :: "string \<Rightarrow> string list" where
  "parseNamespace namespaceStr = (if namespaceStr = [] then [] else split CHR ''.'' namespaceStr)"

text \<open>\<^verbatim>\<open>TableMetadata(**json)\<close> on what \<^verbatim>\<open>readJsonFile\<close> returned.\<close>

fun parseTableMetadata :: "fileContent \<Rightarrow> error + Schema TableMetadata" where
  "parseTableMetadata (JsonMetadata m) = Inr m"
| "parseTableMetadata _ = Inl PydanticValidationError"

subsection \<open>\<^verbatim>\<open>loadTableEndpoint\<close>\<close>






subsection \<open>\<^verbatim>\<open>commitTableEndpoint\<close>, update path\<close>

record CommitTableRequest =
  req_identifier :: "TableIdentifier option"
  requirements :: "TableRequirement list"
  updates :: "Schema TableUpdate list"

definition isAssertCreate :: "CommitTableRequest \<Rightarrow> bool" where
  "isAssertCreate request = list_ex (\<lambda>req. req = AssertCreate) (requirements request)"

text \<open>
  The loop over \<^verbatim>\<open>request.requirements\<close>: its body has one test, for the type
  \<^verbatim>\<open>assert-table-uuid\<close>. \<open>True\<close> means that the requirement raises nothing.
\<close>

fun checkRequirement :: "Schema TableMetadata \<Rightarrow> TableRequirement \<Rightarrow> bool" where
  "checkRequirement m (AssertTableUUID u) = (tableUuid m = u)"
| "checkRequirement m _ = True"

text \<open>The first \<open>SetLocationUpdate\<close> of the request, if any.\<close>

fun firstSetLocation :: "Schema TableUpdate list \<Rightarrow> string option" where
  "firstSetLocation [] = None"
| "firstSetLocation (SetLocationUpdate l # us) = Some l"
| "firstSetLocation (u # us) = firstSetLocation us"

record CommitTableResponse =
  rsp_metadataLocation :: string
  rsp_metadata :: "Schema TableMetadata"

text \<open>
  The endpoint for a request none of whose requirements is \<open>AssertCreate\<close> (the
  \<^verbatim>\<open>else\<close> branch of \<^verbatim>\<open>if isAssertCreate\<close>), from the identifier check to the response; the
  branch for \<open>AssertCreate\<close> is not part of the model. \<open>uuid\<close> and \<open>now\<close> are the fresh UUID
  of the file name and the clock. \<open>others\<close> is what concurrent requests commit to the
  catalog between this request's first query and its final update (the identity when
  the request runs alone). The result is the catalog and the file system after the
  request, and the response or the exception.
\<close>

text \<open>
  The \<^verbatim>\<open>try\<close> around the read of the current metadata: any exception becomes
  \<open>CommitFailed\<close>.
\<close>

definition loadCurrentMetadata ::
  "config \<Rightarrow> filesystem \<Rightarrow> string \<Rightarrow> error + Schema TableMetadata"
where
  "loadCurrentMetadata cfg fs oldMetadataLocation =
     (case readJsonFile cfg fs oldMetadataLocation of
        Inl e \<Rightarrow> Inl CommitFailed
      | Inr j \<Rightarrow>
          (case parseTableMetadata j of Inl e \<Rightarrow> Inl CommitFailed | Inr m \<Rightarrow> Inr m))"

text \<open>
  \<^verbatim>\<open>CommitTableResponse(metadataLocation=..., metadata=...)\<close>: the field is required and has
  the alias \<^verbatim>\<open>metadata-location\<close>, so the keyword argument with the field's name is ignored
  and the constructor raises pydantic's validation error.
\<close>

definition makeCommitTableResponse ::
  "string \<Rightarrow> Schema TableMetadata \<Rightarrow> error + CommitTableResponse"
where
  "makeCommitTableResponse newMetadataFileLocation newMetadata = Inl PydanticValidationError"

text \<open>
  The final \<^verbatim>\<open>try\<close> and the \<^verbatim>\<open>return\<close>. The update of the catalog row runs in the request's
  session, which has loaded \<open>currentDbTable\<close> in the first query, with that object's
  location as the expected one. In both \<^verbatim>\<open>except\<close> branches \<^verbatim>\<open>deleteFile\<close> runs first, and
  an exception it raises replaces \<open>CommitFailed\<close>. After a successful update the response
  is built, outside the \<^verbatim>\<open>try\<close>.
\<close>

definition commitCatalogUpdate ::
  "config \<Rightarrow> catalog \<Rightarrow> filesystem \<Rightarrow> TableIdentifier \<Rightarrow> TableModel \<Rightarrow> string
     \<Rightarrow> Schema TableMetadata \<Rightarrow> catalog \<times> filesystem \<times> (error + CommitTableResponse)"
where
  "commitCatalogUpdate cfg db fs ident currentDbTable newMetadataFileLocation newMetadata =
     (case updateTableMetadataLocationIn (loaded currentDbTable) db ident
             newMetadataFileLocation (Some (metadataLocation currentDbTable)) of
        Inr (db2, row) \<Rightarrow>
          (db2, fs, makeCommitTableResponse newMetadataFileLocation newMetadata)
      | Inl e \<Rightarrow>
          (case deleteFile cfg fs newMetadataFileLocation of
             Inl e' \<Rightarrow> (db, fs, Inl e')
           | Inr fs2 \<Rightarrow> (db, fs2, Inl CommitFailed)))"

text \<open>
  From \<^verbatim>\<open>generateNewMetadataLocation\<close> to the end: the new file name, the entry appended
  to \<^verbatim>\<open>metadataLog\<close>, the write of the file, then the catalog update on the catalog as the
  concurrent requests left it.
\<close>

definition writeAndCommit ::
  "config \<Rightarrow> string \<Rightarrow> (catalog \<Rightarrow> catalog) \<Rightarrow> catalog \<Rightarrow> filesystem \<Rightarrow> TableIdentifier
     \<Rightarrow> TableModel \<Rightarrow> Schema TableMetadata
     \<Rightarrow> catalog \<times> filesystem \<times> (error + CommitTableResponse)"
where
  "writeAndCommit cfg uuid others db fs ident currentDbTable applied =
     (let newMetadataFileLocation =
            generateNewMetadataLocation uuid (location applied)
              (Some (metadataLocation currentDbTable));
          newMetadata =
            applied\<lparr>metadataLog :=
              Some ((case metadataLog applied of None \<Rightarrow> [] | Some l \<Rightarrow> l)
                    @ [(lastUpdatedMs applied, newMetadataFileLocation)])\<rparr>
      in
      case writeJsonFile cfg fs newMetadataFileLocation (JsonMetadata newMetadata) of
        Inl e \<Rightarrow> (db, fs, Inl e)
      | Inr fs1 \<Rightarrow>
          commitCatalogUpdate cfg (others db) fs1 ident currentDbTable newMetadataFileLocation
            newMetadata)"

definition commitTableUpdate ::
  "config \<Rightarrow> string \<Rightarrow> int \<Rightarrow> (catalog \<Rightarrow> catalog) \<Rightarrow> catalog \<Rightarrow> filesystem \<Rightarrow> string \<Rightarrow> string
     \<Rightarrow> CommitTableRequest \<Rightarrow> catalog \<times> filesystem \<times> (error + CommitTableResponse)"
where
  "commitTableUpdate cfg uuid now others db fs namespaceStr tableName request =
     (let namespaceLevels = parseNamespace namespaceStr;
          ident = \<lparr>namespace = namespaceLevels, ident_name = tableName\<rparr>
      in
      if (case req_identifier request of
            None \<Rightarrow> False
          | Some i \<Rightarrow> \<not> (ident_name i = tableName \<and> namespace i = namespaceLevels))
      then (db, fs, Inl BadRequest)
      else
        (case getTableByIdentifier db ident of
           None \<Rightarrow> (db, fs, Inl (NoSuchTable (namespaceLevels @ [tableName])))
         | Some currentDbTable \<Rightarrow>
             (case loadCurrentMetadata cfg fs (metadataLocation currentDbTable) of
                Inl e \<Rightarrow> (db, fs, Inl e)
              | Inr currentMetadata \<Rightarrow>
                  (if \<not> list_all (checkRequirement currentMetadata) (requirements request)
                   then (db, fs, Inl CommitFailed)
                   else
                     (case applyUpdatesToMetadata now currentMetadata (updates request)
                             (Some (case firstSetLocation (updates request) of
                                      None \<Rightarrow> location currentMetadata
                                    | Some l \<Rightarrow> l)) of
                        Inl e \<Rightarrow>
                          (db, fs, if isIcebergException e then Inl e else Inl CommitFailed)
                      | Inr applied \<Rightarrow>
                          writeAndCommit cfg uuid others db fs ident currentDbTable applied)))))"

section \<open>The field-id bound and sample values\<close>

text \<open>
  The ids of all fields of a field list, descending into fields of struct type: the ids
  the claim on \<open>last_column_id\<close> ranges over.
\<close>

fun fieldIds :: "StructField list \<Rightarrow> int list" where
  "fieldIds [] = []"
| "fieldIds (StructField i n t r d # fs) =
     i # (case t of StructType sub \<Rightarrow> fieldIds sub | _ \<Rightarrow> []) @ fieldIds fs"

definition columnIdBound :: "Schema TableMetadata \<Rightarrow> bool" where
  "columnIdBound m =
     list_all (\<lambda>s. list_all (\<lambda>i. i \<le> lastColumnId m) (fieldIds (schema_fields s))) (schemas m)"

text \<open>
  A schema with a nested struct and no schema id, the same schema with id 7, and a
  metadata document of a table at \<^verbatim>\<open>/wh/a/t\<close> with one snapshot.
\<close>

definition schemaA :: Schema where
  "schemaA =
     \<lparr>schemaId = None,
      schema_fields =
        [StructField 1 ''x'' (Primitive ''int'') False None,
         StructField 2 ''p'' (StructType [StructField 5 ''q'' (Primitive ''long'') True None])
           False None],
      identifierFieldIds = None\<rparr>"


definition snap7 :: Snapshot where
  "snap7 =
     \<lparr>snapshotId = 7, parentId = None, timestampMs = 900, summary = None,
      manifestList = ''/wh/a/t/metadata/snap-7.avro'', snap_schemaId = Some 0\<rparr>"

definition metadataA :: "Schema TableMetadata" where
  "metadataA =
     \<lparr>formatVersion = 1,
      tableUuid = ''uuid-a'',
      location = ''/wh/a/t'',
      lastUpdatedMs = 1000,
      lastColumnId = 5,
      schemas = [schemaA\<lparr>schemaId := Some 0\<rparr>],
      currentSchemaId = 0,
      partitionSpecs = [],
      defaultSpecId = 0,
      lastPartitionId = 0,
      properties = Some [],
      currentSnapshotId = Some 7,
      snapshots = Some [snap7],
      snapshotLog = Some [(900, 7)],
      metadataLog = Some [(1000, ''/wh/a/t/metadata/00000-a.metadata.json'')],
      sortOrders = [],
      defaultSortOrderId = 0,
      refs = Some [(''main'', \<lparr>ref_snapshotId = 7, ref_type = Branch, minSnapshotsToKeep = None,
                               maxSnapshotAgeMs = None, maxRefAgeMs = None\<rparr>)]\<rparr>"


text \<open>
  A process with working directory \<^verbatim>\<open>/srv\<close> and warehouse \<^verbatim>\<open>/wh\<close>; a catalog with the
  namespaces \<open>a\<close>, \<open>a.b\<close> and \<open>c\<close> and two tables in \<open>a\<close>.
\<close>

definition cfgA :: config where
  "cfgA = \<lparr>cwd = ''/srv'', icebergWarehousePath = ''/wh''\<rparr>"

definition tableT :: TableModel where
  "tableT =
     \<lparr>tbl_id = 1, namespaceId = 1, tbl_name = ''t'',
      metadataLocation = ''/wh/a/t/metadata/00000-a.metadata.json'', tbl_properties = None\<rparr>"

definition tableU :: TableModel where
  "tableU =
     \<lparr>tbl_id = 2, namespaceId = 1, tbl_name = ''u'',
      metadataLocation = ''/wh/a/u/metadata/00000-b.metadata.json'', tbl_properties = None\<rparr>"

definition catalogA :: catalog where
  "catalogA =
     \<lparr>namespaces =
        [\<lparr>ns_id = 1, levels = [''a''], ns_properties = None\<rparr>,
         \<lparr>ns_id = 2, levels = [''a'', ''b''], ns_properties = None\<rparr>,
         \<lparr>ns_id = 3, levels = [''c''], ns_properties = None\<rparr>],
      tables = [tableT, tableU]\<rparr>"

definition identT :: TableIdentifier where
  "identT = \<lparr>namespace = [''a''], ident_name = ''t''\<rparr>"




definition fsA :: filesystem where
  "fsA = (\<lambda>_. None)(''/wh/a/t/metadata/00000-a.metadata.json'' := Some (JsonMetadata metadataA))"

text \<open>
  Commit requests without \<open>AssertCreate\<close>: one whose requirements other than the table
  UUID all disagree with the sample document, and one with no requirement.
\<close>

definition requestQ :: CommitTableRequest where
  "requestQ =
     \<lparr>req_identifier = None,
      requirements =
        [AssertTableUUID ''uuid-a'', AssertCurrentSchemaID 5, AssertDefaultSpecID 9,
         AssertDefaultSortOrderID 9, AssertLastAssignedFieldID 99,
         AssertRefSnapshotID ''main'' None, AssertRefSnapshotID ''dev'' (Some 7)],
      updates = [SetPropertiesUpdate [(''owner'', ''x'')]]\<rparr>"

definition requestP :: CommitTableRequest where
  "requestP =
     \<lparr>req_identifier = None, requirements = [],
      updates = [SetPropertiesUpdate [(''owner'', ''x'')]]\<rparr>"

text \<open>
  Another request's successful commit on table \<open>t\<close> of the sample catalog: the row moves
  to that request's metadata file.
\<close>

definition concurrentCommit :: "catalog \<Rightarrow> catalog" where
  "concurrentCommit db = setLocation db 1 ''/wh/a/t/metadata/00001-other.metadata.json''"


section \<open>Properties of the metadata manager\<close>

lemma applyUpdatesToMetadata_upgrade:
  "applyUpdatesToMetadata now m [UpgradeFormatVersionUpdate v] ovr =
     (if v > formatVersion m then Inr (m\<lparr>lastUpdatedMs := now, formatVersion := v\<rparr>)
      else Inl CommitFailed)"
  by (simp add: applyUpdatesToMetadata_def)

text \<open>
  C6. The claim lets \<open>UpgradeFormatVersion(v)\<close> succeed whenever \<open>v\<close> is at least the
  current format version. The code compares with \<^verbatim>\<open>>\<close>: an update to the version the
  metadata already has is refused with \<open>CommitFailed\<close>, whatever the metadata is.
\<close>

theorem upgrade_to_current_version_fails:
  "applyUpdatesToMetadata now m [UpgradeFormatVersionUpdate (formatVersion m)] ovr
     = Inl CommitFailed"
  by (simp add: applyUpdatesToMetadata_def)

subsection \<open>Update variants without a branch\<close>

text \<open>
  C3. The claim lets \<open>RemoveSnapshotRef\<close> and \<open>RemoveSnapshots\<close> succeed. On the sample
  metadata both fail with \<open>BadRequest\<close>.
\<close>

theorem remove_updates_counterexample:
  "applyUpdatesToMetadata 2000 metadataA [RemoveSnapshotRefUpdate ''main''] None = Inl BadRequest \<and>
   applyUpdatesToMetadata 2000 metadataA [RemoveSnapshotsUpdate [7]] None = Inl BadRequest"
  by (simp add: applyUpdatesToMetadata_def)


text \<open>
  C3, as amended. For every metadata value \<open>applyUpdatesToMetadata\<close> fails with
  \<open>BadRequest\<close> on a \<open>RemoveSnapshotRef\<close> update and on a \<open>RemoveSnapshots\<close> update, and
  these two are the only variants on which one step of the loop fails with
  \<open>BadRequest\<close>.
\<close>

theorem remove_updates_are_unsupported:
  "applyUpdatesToMetadata now m [RemoveSnapshotRefUpdate nm] ovr = Inl BadRequest \<and>
   applyUpdatesToMetadata now m [RemoveSnapshotsUpdate ids] ovr = Inl BadRequest \<and>
   ((applyUpdate ovr m u = Inl BadRequest) =
      ((\<exists>n. u = RemoveSnapshotRefUpdate n) \<or> (\<exists>is. u = RemoveSnapshotsUpdate is)))"
  by (cases u) (auto simp: applyUpdatesToMetadata_def Let_def split: option.splits)


subsection \<open>The bound on field ids\<close>





lemma columnIdBound_mono:
  "columnIdBound m \<Longrightarrow> schemas m' = schemas m \<Longrightarrow> lastColumnId m \<le> lastColumnId m'
     \<Longrightarrow> columnIdBound m'"
  unfolding columnIdBound_def list_all_iff by force










subsection \<open>\<open>buildInitialTableMetadata\<close> and its schema argument\<close>



text \<open>
  With the constructor's validation in the model, the write to the caller's schema
  object is the same and the call ends in the validation error.
\<close>

lemma buildInitialTableMetadata_call_store:
  "buildInitialTableMetadata_call tu fu now h nm r ps so props loc =
     ((if schemaId (h r) = None then h(r := (h r)\<lparr>schemaId := Some 0\<rparr>) else h),
      Inl PydanticValidationError)"
  by (simp add: buildInitialTableMetadata_call_def buildInitialTableMetadata_st_def Let_def)

section \<open>Properties of the storage accessor\<close>

text \<open>
  A relative path whose normalised resolution does not start with the normalised
  warehouse root, as strings, is refused by all four operations.
\<close>

lemma traversal_rejected:
  assumes "\<not> contains ''://'' p" "\<not> isabs p"
    "\<not> startswith (abspath (cwd cfg) (join (icebergWarehousePath cfg) p))
         (abspath (cwd cfg) (icebergWarehousePath cfg))"
  shows "readJsonFile cfg fs p = Inl Validation \<and> writeJsonFile cfg fs p d = Inl Validation \<and>
    fileExists cfg fs p = Inl Validation \<and> deleteFile cfg fs p = Inl Validation"
  using assms
  by (simp add: readJsonFile_def writeJsonFile_def fileExists_def deleteFile_def resolvePath_def Let_def)

lemma parent_of_warehouse_is_rejected: "resolvePath cfgA ''../x'' = Inl Validation"
  by code_simp


text \<open>
  C4. The claim refuses every relative path whose resolution is not a descendant of the
  warehouse root. With the warehouse at \<^verbatim>\<open>/wh\<close>, the relative path \<^verbatim>\<open>../wh2/x\<close> resolves to
  \<^verbatim>\<open>/wh2/x\<close>, which is not below \<^verbatim>\<open>/wh\<close> but starts with the same characters: no operation
  fails with \<open>Validation\<close>, and the write creates the file outside the warehouse.
\<close>

theorem sibling_of_warehouse_passes_traversal_check:
  "resolvePath cfgA ''../wh2/x'' = Inr ''/wh2/x'' \<and>
   \<not> isDescendant (abspath (cwd cfgA) (icebergWarehousePath cfgA)) ''/wh2/x'' \<and>
   readJsonFile cfgA (\<lambda>_. None) ''../wh2/x'' = Inl NotFound \<and>
   fileExists cfgA (\<lambda>_. None) ''../wh2/x'' = Inr False \<and>
   (case deleteFile cfgA (\<lambda>_. None) ''../wh2/x'' of Inl e \<Rightarrow> False | Inr fs \<Rightarrow> True) \<and>
   (case writeJsonFile cfgA (\<lambda>_. None) ''../wh2/x'' JsonOther of
      Inl e \<Rightarrow> None | Inr fs \<Rightarrow> fs ''/wh2/x'') = Some JsonOther"
  by code_simp


section \<open>Properties of the catalog store\<close>

lemma listNamespaces_ignores_parent:
  "listNamespaces db parent = listNamespaces db None \<and>
   set (listNamespaces db parent) = set (namespaces db)"
  by (simp add: listNamespaces_def)

text \<open>
  C7. The claim lets \<open>listNamespaces\<close> with a parent return the children of the parent
  only. In the sample catalog, with parent \<open>a\<close>, the code returns \<open>a\<close>, \<open>a.b\<close> and \<open>c\<close>, of
  which only \<open>a.b\<close> is a child of \<open>a\<close>.
\<close>

theorem listNamespaces_returns_all_for_a_parent: "map levels (listNamespaces catalogA (Some [''a''])) = [[''a''], [''a'', ''b''], [''c'']]"
  by code_simp

lemma find_map_preserve:
  "(\<And>x. P (f x) = P x) \<Longrightarrow> find P (map f xs) = map_option f (find P xs)"
  by (induction xs) auto

lemma getTable_setLocation:
  assumes "getTableByIdentifier db ident = Some t"
  shows "getTableByIdentifier (setLocation db (tbl_id t) new) ident
           = Some (t\<lparr>metadataLocation := new\<rparr>)"
proof -
  obtain n where n: "getNamespaceByLevels db (namespace ident) = Some n"
    and f: "find (\<lambda>t. namespaceId t = ns_id n \<and> tbl_name t = ident_name ident) (tables db) = Some t"
    using assms by (auto simp: getTableByIdentifier_def split: option.splits)
  have n': "getNamespaceByLevels (setLocation db (tbl_id t) new) (namespace ident) = Some n"
    using n by (simp add: getNamespaceByLevels_def setLocation_def)
  have "find (\<lambda>t. namespaceId t = ns_id n \<and> tbl_name t = ident_name ident)
          (tables (setLocation db (tbl_id t) new))
        = map_option (\<lambda>r. if tbl_id r = tbl_id t then r\<lparr>metadataLocation := new\<rparr> else r)
            (find (\<lambda>t. namespaceId t = ns_id n \<and> tbl_name t = ident_name ident) (tables db))"
    unfolding setLocation_def by (simp add: find_map_preserve)
  then show ?thesis
    using f n' by (simp add: getTableByIdentifier_def)
qed


text \<open>
  C9. The claim lets the call with no expected location overwrite the row for any new
  location. In the sample catalog, moving table \<open>t\<close> to the location that table \<open>u\<close> has is
  stopped by the unique constraint on the column.
\<close>

theorem update_to_taken_location_counterexample:
  "getTableByIdentifier catalogA identT = Some tableT \<and>
   updateTableMetadataLocation catalogA identT (metadataLocation tableU) None = Inl IntegrityError"
  by code_simp

text \<open>
  C9, as amended. For an existing row, a call whose expected location is \<open>None\<close> or the
  empty string makes no comparison and never raises \<open>CommitFailed\<close>: it sets the row's
  location to the new one (a later query finds the row with it), unless another row
  already has that location, in which case the commit raises the database's integrity
  error.
\<close>

theorem update_without_expected_location:
  assumes "getTableByIdentifier db ident = Some t" and "old = None \<or> old = Some []"
  shows "updateTableMetadataLocation db ident new old =
           (if locationTaken db (tbl_id t) new then Inl IntegrityError
            else Inr (setLocation db (tbl_id t) new, t\<lparr>metadataLocation := new\<rparr>)) \<and>
         getTableByIdentifier (setLocation db (tbl_id t) new) ident
           = Some (t\<lparr>metadataLocation := new\<rparr>)"
  using assms getTable_setLocation[OF assms(1)]
  by (auto simp: updateTableMetadataLocation_def updateTableMetadataLocationIn_def
      queryTable_def newSession_def)


theorem update_without_expected_location_witness:
  "updateTableMetadataLocation catalogA identT ''/wh/a/t/metadata/00001-c.metadata.json'' None
     = Inr (setLocation catalogA 1 ''/wh/a/t/metadata/00001-c.metadata.json'',
            tableT\<lparr>metadataLocation := ''/wh/a/t/metadata/00001-c.metadata.json''\<rparr>) \<and>
   updateTableMetadataLocation catalogA identT ''/wh/a/t/metadata/00001-c.metadata.json''
       (Some [])
     = Inr (setLocation catalogA 1 ''/wh/a/t/metadata/00001-c.metadata.json'',
            tableT\<lparr>metadataLocation := ''/wh/a/t/metadata/00001-c.metadata.json''\<rparr>) \<and>
   getTableByIdentifier (setLocation catalogA 1 ''/wh/a/t/metadata/00001-c.metadata.json'')
       identT
     = Some (tableT\<lparr>metadataLocation := ''/wh/a/t/metadata/00001-c.metadata.json''\<rparr>)"
proof -
  have a: "getTableByIdentifier catalogA identT = Some tableT" by code_simp
  have b: "\<not> locationTaken catalogA 1 ''/wh/a/t/metadata/00001-c.metadata.json''"
    by code_simp
  have c: "tbl_id tableT = 1" by (simp add: tableT_def)
  show ?thesis
    using b c
      update_without_expected_location
        [OF a, of None "''/wh/a/t/metadata/00001-c.metadata.json''"]
      update_without_expected_location
        [OF a, of "Some []" "''/wh/a/t/metadata/00001-c.metadata.json''"]
    by simp
qed

section \<open>Properties of \<open>loadTableEndpoint\<close>\<close>












section \<open>Properties of the commit on the update path\<close>

lemma isabs_resolvePath: "isabs p \<Longrightarrow> resolvePath cfg p = Inr p"
  by (cases p) (auto simp: resolvePath_def isabs_def startswith_def)

text \<open>
  In the session that has loaded the row, the expected location is compared with the
  loaded object's own location: while the table keeps its primary key the comparison
  never fails, whatever the row holds by now.
\<close>

lemma update_in_loading_session:
  assumes "getTableByIdentifier db ident = Some r" and "tbl_id r = tbl_id cur"
  shows "updateTableMetadataLocationIn (loaded cur) db ident new (Some (metadataLocation cur))
           = (if locationTaken db (tbl_id cur) new then Inl IntegrityError
              else Inr (setLocation db (tbl_id cur) new, cur\<lparr>metadataLocation := new\<rparr>))"
  using assms
  by (simp add: updateTableMetadataLocationIn_def queryTable_def loaded_def newSession_def)

text \<open>
  The comparison can fail only for a row with another primary key (the table was dropped
  and registered again): then, for a new file with an absolute name, the call fails with
  \<open>CommitFailed\<close>, the file is removed and the catalog is left as it is.
\<close>

lemma commitCatalogUpdate_replaced_row:
  assumes "getTableByIdentifier db ident = Some row"
    and "tbl_id row \<noteq> tbl_id currentDbTable"
    and "metadataLocation currentDbTable \<noteq> []"
    and "metadataLocation row \<noteq> metadataLocation currentDbTable"
    and "isabs newLoc" and "fs (fileKey cfg newLoc) \<noteq> None"
  shows "commitCatalogUpdate cfg db fs ident currentDbTable newLoc md
           = (db, fs(fileKey cfg newLoc := None), Inl CommitFailed)"
  using assms
  by (auto simp: commitCatalogUpdate_def updateTableMetadataLocationIn_def queryTable_def
      loaded_def newSession_def deleteFile_def fileExists_def isabs_resolvePath)

text \<open>
  C1. A request reads table \<open>t\<close> at \<^verbatim>\<open>00000-a\<close>; before its catalog update another request
  commits and the row holds \<^verbatim>\<open>00001-other\<close>, no longer the location read at the start. By
  the claim the request fails with \<open>CommitFailed\<close>, its file is deleted and the row stays
  at \<^verbatim>\<open>00001-other\<close>. In the code the second query returns the object the session loaded
  first, the comparison holds, and the row is overwritten: it ends at this request's
  \<^verbatim>\<open>00001-u1\<close>, the file stays, and the exception raised is the validation error of the
  response, not \<open>CommitFailed\<close>.
\<close>

theorem concurrent_commit_is_overwritten:
  "\<not> isAssertCreate requestP \<and>
   map_option metadataLocation (getTableByIdentifier catalogA identT)
     = Some ''/wh/a/t/metadata/00000-a.metadata.json'' \<and>
   map_option metadataLocation (getTableByIdentifier (concurrentCommit catalogA) identT)
     = Some ''/wh/a/t/metadata/00001-other.metadata.json'' \<and>
   fsA ''/wh/a/t/metadata/00001-u1.metadata.json'' = None \<and>
   snd (snd (commitTableUpdate cfgA ''u1'' 2000 concurrentCommit catalogA fsA ''a'' ''t'' requestP))
     = Inl PydanticValidationError \<and>
   fst (snd (commitTableUpdate cfgA ''u1'' 2000 concurrentCommit catalogA fsA ''a'' ''t'' requestP))
       ''/wh/a/t/metadata/00001-u1.metadata.json''
     \<noteq> None \<and>
   map_option metadataLocation
       (getTableByIdentifier
          (fst (commitTableUpdate cfgA ''u1'' 2000 concurrentCommit catalogA fsA ''a'' ''t''
                  requestP))
          identT)
     = Some ''/wh/a/t/metadata/00001-u1.metadata.json''"
  by code_simp

text \<open>A requirement on the table UUID that does not hold stops the commit.\<close>

lemma uuid_mismatch_fails:
  assumes "req_identifier request = None"
    and "getTableByIdentifier db \<lparr>namespace = parseNamespace ns, ident_name = t\<rparr> = Some row"
    and "loadCurrentMetadata cfg fs (metadataLocation row) = Inr m"
    and "AssertTableUUID u \<in> set (requirements request)" and "tableUuid m \<noteq> u"
  shows "commitTableUpdate cfg uuid now others db fs ns t request = (db, fs, Inl CommitFailed)"
proof -
  have "\<not> list_all (checkRequirement m) (requirements request)"
    using assms(4,5) by (auto simp: list_all_iff intro!: bexI[of _ "AssertTableUUID u"])
  then show ?thesis
    using assms(1-3) by (simp add: commitTableUpdate_def Let_def)
qed

text \<open>
  C2. The request asserts the right table UUID and, against the sample document (current
  schema 0, default spec 0, default sort order 0, last column id 5, \<open>main\<close> on snapshot 7,
  no ref \<open>dev\<close>), a current schema 5, a default spec 9, a default sort order 9, a last
  assigned field id 99, that \<open>main\<close> is absent and that \<open>dev\<close> is on snapshot 7. None of
  these holds, and the commit is carried out: the new metadata file is written and the
  catalog row is moved to it. No \<open>CommitFailed\<close> is raised (the exception at the end is
  the validation error of the response, raised after the catalog update).
\<close>

theorem mismatched_requirements_are_not_checked:
  "\<not> isAssertCreate requestQ \<and>
   currentSchemaId metadataA \<noteq> 5 \<and> defaultSpecId metadataA \<noteq> 9 \<and>
   defaultSortOrderId metadataA \<noteq> 9 \<and> lastColumnId metadataA \<noteq> 99 \<and>
   map_option ref_snapshotId (map_of (case refs metadataA of None \<Rightarrow> [] | Some rs \<Rightarrow> rs) ''main'')
     = Some 7 \<and>
   map_of (case refs metadataA of None \<Rightarrow> [] | Some rs \<Rightarrow> rs) ''dev'' = None \<and>
   fsA ''/wh/a/t/metadata/00001-u1.metadata.json'' = None \<and>
   fst (snd (commitTableUpdate cfgA ''u1'' 2000 id catalogA fsA ''a'' ''t'' requestQ))
       ''/wh/a/t/metadata/00001-u1.metadata.json''
     \<noteq> None \<and>
   map_option metadataLocation
       (getTableByIdentifier
          (fst (commitTableUpdate cfgA ''u1'' 2000 id catalogA fsA ''a'' ''t'' requestQ)) identT)
     = Some ''/wh/a/t/metadata/00001-u1.metadata.json'' \<and>
   snd (snd (commitTableUpdate cfgA ''u1'' 2000 id catalogA fsA ''a'' ''t'' requestQ))
     \<noteq> Inl CommitFailed"
  by code_simp

end
